theory Spec2Isabelle
  imports Complex_Main
begin

section \<open>Python values, exceptions and the random generator\<close>

text \<open>
  The two programs are \<^verbatim>\<open>docker/ml-service/mock_ml_service.py\<close> (the prediction
  service) and \<^verbatim>\<open>scripts/sample-data-generator.py\<close> (the observation generator).

  Values decoded from a JSON request body are modelled by \<open>json\<close>. A Python \<open>dict\<close> is
  an association list read with \<open>map_of\<close>. Python floats are modelled as exact reals
  (no rounding error, no NaN, no infinity); Python integers are reals as well, which
  agrees with Python on every comparison the programs make.
\<close>

datatype json =
    JNull
  | JBool bool
  | JNum real
  | JStr string
  | JList "json list"
  | JObj "(string \<times> json) list"

datatype py_error = KeyError string | TypeError

text \<open>
  The module-level generator of \<^verbatim>\<open>random\<close> is an infinite sequence of future results
  of \<^verbatim>\<open>random.random()\<close>; a draw returns the first one and the rest of the sequence.
  \<^verbatim>\<open>random.uniform(a, b)\<close> is \<^verbatim>\<open>a + (b - a) * random()\<close>, as in the standard library.
\<close>

type_synonym rng = "nat \<Rightarrow> real"

definition unit_draws :: "rng \<Rightarrow> bool" where
  "unit_draws g \<longleftrightarrow> (\<forall>n. 0 \<le> g n \<and> g n < 1)"

definition random_random :: "rng \<Rightarrow> real \<times> rng" where
  "random_random g = (g 0, \<lambda>n. g (Suc n))"

definition random_uniform :: "real \<Rightarrow> real \<Rightarrow> rng \<Rightarrow> real \<times> rng" where
  "random_uniform a b g = (let (u, g') = random_random g in (a + (b - a) * u, g'))"

section \<open>The prediction service: \<^verbatim>\<open>predict_traffic\<close>\<close>

datatype density = LOW | MODERATE | HIGH | CRITICAL

definition TRAFFIC_DENSITIES :: "density list" where
  "TRAFFIC_DENSITIES = [LOW, MODERATE, HIGH, CRITICAL]"

text \<open>Position in the severity order; \<open>LOW < MODERATE < HIGH < CRITICAL\<close>.\<close>

fun severity :: "density \<Rightarrow> nat" where
  "severity LOW = 0"
| "severity MODERATE = 1"
| "severity HIGH = 2"
| "severity CRITICAL = 3"

text \<open>\<^verbatim>\<open>list.index\<close>, for an element that occurs in the list.\<close>

fun index_of :: "'a list \<Rightarrow> 'a \<Rightarrow> nat" where
  "index_of [] x = 0"
| "index_of (y # ys) x = (if x = y then 0 else Suc (index_of ys x))"

text \<open>
  The operand of an order comparison with a number: an \<open>int\<close> or \<open>float\<close>, or a \<open>bool\<close>
  (a subclass of \<open>int\<close>). Any other value makes \<^verbatim>\<open>7 <= hour\<close> raise \<open>TypeError\<close>.
\<close>

fun as_number :: "json \<Rightarrow> real option" where
  "as_number (JNum x) = Some x"
| "as_number (JBool b) = Some (if b then 1 else 0)"
| "as_number JNull = None"
| "as_number (JStr s) = None"
| "as_number (JList xs) = None"
| "as_number (JObj kvs) = None"

text \<open>Lines 22-31: base prediction based on time of day.\<close>

definition base_by_hour :: "real \<Rightarrow> density \<times> real" where
  "base_by_hour hour =
     (if (7 \<le> hour \<and> hour \<le> 9) \<or> (17 \<le> hour \<and> hour \<le> 19) then (HIGH, 0.85)
      else if 22 \<le> hour \<or> hour \<le> 6 then (LOW, 0.80)
      else (MODERATE, 0.75))"

text \<open>Lines 33-37: adjust for day of week.\<close>

definition adjust_day_of_week :: "json \<Rightarrow> density \<times> real \<Rightarrow> density \<times> real" where
  "adjust_day_of_week day_of_week pc =
     (let (base_prediction, base_confidence) = pc in
      if day_of_week \<in> set [JStr ''Saturday'', JStr ''Sunday'']
      then ((if base_prediction = HIGH then MODERATE else base_prediction),
            base_confidence - 0.05)
      else (base_prediction, base_confidence))"

text \<open>Lines 39-45: adjust for weather.\<close>

definition adjust_weather :: "json \<Rightarrow> density \<times> real \<Rightarrow> density \<times> real" where
  "adjust_weather weather pc =
     (let (base_prediction, base_confidence) = pc in
      if weather \<in> set [JStr ''RAIN'', JStr ''SNOW'', JStr ''FOG'']
      then ((if base_prediction = LOW then MODERATE
             else if base_prediction = MODERATE then HIGH
             else base_prediction),
            base_confidence - 0.10)
      else (base_prediction, base_confidence))"

text \<open>Lines 47-51: adjust for historical data.\<close>

definition adjust_historical :: "real \<Rightarrow> real \<Rightarrow> real" where
  "adjust_historical historical_data_points base_confidence =
     (if historical_data_points > 10 then base_confidence + 0.05
      else if historical_data_points < 3 then base_confidence - 0.10
      else base_confidence)"

text \<open>
  Lines 22-51 together: the prediction and confidence before any random draw. The
  comparisons on \<open>hour\<close> (line 23) and on \<open>historical_data_points\<close> (line 48) raise
  \<open>TypeError\<close> on a value that is not a number.
\<close>

definition pre_jitter :: "json \<Rightarrow> json \<Rightarrow> json \<Rightarrow> json \<Rightarrow> py_error + density \<times> real" where
  "pre_jitter hour day_of_week weather historical_data_points =
     (case as_number hour of
        None \<Rightarrow> Inl TypeError
      | Some h \<Rightarrow>
          (let (base_prediction, base_confidence) =
                 adjust_weather weather (adjust_day_of_week day_of_week (base_by_hour h))
           in case as_number historical_data_points of
                None \<Rightarrow> Inl TypeError
              | Some n \<Rightarrow> Inr (base_prediction, adjust_historical n base_confidence)))"

text \<open>Lines 53-55: add some randomness, then clamp.\<close>

definition add_randomness :: "real \<Rightarrow> rng \<Rightarrow> real \<times> rng" where
  "add_randomness base_confidence g =
     (let (confidence_adjustment, g') = random_uniform (- 0.05) 0.05 g
      in (max 0.5 (min 0.95 (base_confidence + confidence_adjustment)), g'))"

text \<open>
  Lines 57-63: occasionally change the prediction. The second draw is the left operand
  of \<^verbatim>\<open>and\<close>, so it is made whenever the first one is below 0.2.
\<close>

definition change_prediction :: "density \<Rightarrow> rng \<Rightarrow> density \<times> rng" where
  "change_prediction base_prediction g =
     (let (r1, g1) = random_random g in
      if r1 < 0.2 then
        (let current_index = index_of TRAFFIC_DENSITIES base_prediction;
             (r2, g2) = random_random g1
         in if r2 < 0.5 \<and> current_index > 0
            then (TRAFFIC_DENSITIES ! (current_index - 1), g2)
            else if current_index < length TRAFFIC_DENSITIES - 1
            then (TRAFFIC_DENSITIES ! (current_index + 1), g2)
            else (base_prediction, g2))
      else (base_prediction, g1))"

definition predict_traffic ::
  "json \<Rightarrow> json \<Rightarrow> json \<Rightarrow> json \<Rightarrow> json \<Rightarrow> json \<Rightarrow> rng
     \<Rightarrow> (py_error + density \<times> real) \<times> rng" where
  "predict_traffic lat lon hour day_of_week weather historical_data_points g =
     (case pre_jitter hour day_of_week weather historical_data_points of
        Inl e \<Rightarrow> (Inl e, g)
      | Inr (base_prediction, base_confidence) \<Rightarrow>
          (let (final_confidence, g1) = add_randomness base_confidence g;
               (final_prediction, g2) = change_prediction base_prediction g1
           in (Inr (final_prediction, final_confidence), g2)))"

text \<open>
  A generator whose first draws are \<open>xs\<close> and every later draw is \<open>d\<close>; used for
  concrete runs.
\<close>

definition draws :: "real list \<Rightarrow> real \<Rightarrow> rng" where
  "draws xs d n = (if n < length xs then xs ! n else d)"

section \<open>The prediction service: request handlers\<close>


















section \<open>The observation generator\<close>

text \<open>
  The standard library's \<^verbatim>\<open>random\<close> functions, each on one draw \<open>u\<close> of
  \<^verbatim>\<open>random()\<close>: \<^verbatim>\<open>randint(a, b)\<close> is \<open>a + \<lfloor>u * (b - a + 1)\<rfloor>\<close>, \<^verbatim>\<open>choice(seq)\<close> is
  \<open>seq[\<lfloor>u * len(seq)\<rfloor>]\<close>, and \<^verbatim>\<open>choices(population, weights, k=1)[0]\<close> is
  \<open>population[bisect(cum_weights, u * total, 0, len(population) - 1)]\<close>, where
  \<open>bisect\<close> returns the first position whose cumulative weight exceeds its argument.
\<close>

definition random_randint :: "int \<Rightarrow> int \<Rightarrow> rng \<Rightarrow> int \<times> rng" where
  "random_randint a b g =
     (let (u, g') = random_random g in (a + \<lfloor>u * of_int (b - a + 1)\<rfloor>, g'))"

definition random_choice :: "'a list \<Rightarrow> rng \<Rightarrow> 'a \<times> rng" where
  "random_choice seq g =
     (let (u, g') = random_random g in (seq ! nat \<lfloor>u * real (length seq)\<rfloor>, g'))"

fun accumulate :: "real \<Rightarrow> real list \<Rightarrow> real list" where
  "accumulate acc [] = []"
| "accumulate acc (x # xs) = (acc + x) # accumulate (acc + x) xs"

fun bisect :: "real list \<Rightarrow> real \<Rightarrow> nat" where
  "bisect [] x = 0"
| "bisect (c # cs) x = (if x < c then 0 else Suc (bisect cs x))"

definition random_choices :: "'a list \<Rightarrow> real list \<Rightarrow> rng \<Rightarrow> 'a \<times> rng" where
  "random_choices population weights g =
     (let cum_weights = accumulate 0 weights;
          total = last cum_weights;
          hi = length population - 1;
          (u, g') = random_random g
      in (population ! bisect (take hi cum_weights) (u * total), g'))"

text \<open>
  \<^verbatim>\<open>round(x, 1)\<close>: the nearest multiple of one tenth, a tie going to the even one.
\<close>

definition round1 :: "real \<Rightarrow> real" where
  "round1 x =
     (let y = x * 10; f = \<lfloor>y\<rfloor>; r = y - of_int f
      in of_int (if r < 1 / 2 then f else if r > 1 / 2 then f + 1
                 else if even f then f else f + 1) / 10)"

definition WEATHER_CONDITIONS :: "string list" where
  "WEATHER_CONDITIONS = [''CLEAR'', ''RAIN'', ''FOG'', ''CLOUDY'']"

definition generate_traffic_density_by_hour :: "int \<Rightarrow> rng \<Rightarrow> density \<times> rng" where
  "generate_traffic_density_by_hour hour g =
     (if (7 \<le> hour \<and> hour \<le> 9) \<or> (17 \<le> hour \<and> hour \<le> 19)
      then random_choices TRAFFIC_DENSITIES [5, 15, 50, 30] g
      else if 22 \<le> hour \<or> hour \<le> 6
      then random_choices TRAFFIC_DENSITIES [70, 25, 5, 0] g
      else random_choices TRAFFIC_DENSITIES [20, 50, 25, 5] g)"

fun density_ranges :: "density \<Rightarrow> int \<times> int" where
  "density_ranges LOW = (5, 20)"
| "density_ranges MODERATE = (21, 50)"
| "density_ranges HIGH = (51, 80)"
| "density_ranges CRITICAL = (81, 120)"

definition generate_vehicle_count :: "density \<Rightarrow> rng \<Rightarrow> int \<times> rng" where
  "generate_vehicle_count density g =
     (let (min_count, max_count) = density_ranges density
      in random_randint min_count max_count g)"

fun speed_ranges :: "density \<Rightarrow> real \<times> real" where
  "speed_ranges LOW = (40, 60)"
| "speed_ranges MODERATE = (20, 40)"
| "speed_ranges HIGH = (10, 25)"
| "speed_ranges CRITICAL = (2, 15)"

definition generate_average_speed :: "density \<Rightarrow> rng \<Rightarrow> real \<times> rng" where
  "generate_average_speed density g =
     (let (min_speed, max_speed) = speed_ranges density;
          (x, g') = random_uniform min_speed max_speed g
      in (round1 x, g'))"

text \<open>
  A location and a timestamp; \<open>dt_weekday\<close> is the value of \<^verbatim>\<open>timestamp.weekday()\<close>
  (Monday is 0, Sunday is 6). The observation carries the timestamp itself in place of
  its formatted text.
\<close>

record loc =
  loc_name :: string
  loc_lat :: real
  loc_lon :: real

record datetime =
  dt_hour :: int
  dt_weekday :: int

record observation =
  location :: string
  latitude :: real
  longitude :: real
  trafficDensity :: density
  timestamp :: datetime
  vehicleCount :: int
  averageSpeed :: real
  weatherCondition :: string

text \<open>
  Lines 116-121: weekend adjustment. The draw is the right operand of \<^verbatim>\<open>and\<close>: it is
  made only when the density is HIGH.
\<close>

definition weekend_dampening :: "int \<Rightarrow> density \<Rightarrow> rng \<Rightarrow> density \<times> rng" where
  "weekend_dampening weekday density g =
     (if weekday \<ge> 5 then
        (if density = CRITICAL then (HIGH, g)
         else if density = HIGH then
           (let (r, g') = random_random g in (if r < 0.5 then (MODERATE, g') else (HIGH, g')))
         else (density, g))
      else (density, g))"

text \<open>Lines 125-129: weather impact, after the weather has been drawn.\<close>

definition weather_impact :: "string \<Rightarrow> density \<Rightarrow> rng \<Rightarrow> density \<times> rng" where
  "weather_impact weather density g =
     (if weather \<in> set [''RAIN'', ''FOG''] then
        (if density = LOW then (MODERATE, g)
         else if density = MODERATE then
           (let (r, g') = random_random g in (if r < 0.3 then (HIGH, g') else (MODERATE, g')))
         else (density, g))
      else (density, g))"

definition generate_traffic_data :: "loc \<Rightarrow> datetime \<Rightarrow> rng \<Rightarrow> observation \<times> rng" where
  "generate_traffic_data loc ts g =
     (let hour = dt_hour ts;
          (density0, g1) = generate_traffic_density_by_hour hour g;
          (density1, g2) = weekend_dampening (dt_weekday ts) density0 g1;
          (weather, g3) = random_choice WEATHER_CONDITIONS g2;
          (density, g4) = weather_impact weather density1 g3;
          (dlat, g5) = random_uniform (- 0.001) 0.001 g4;
          (dlon, g6) = random_uniform (- 0.001) 0.001 g5;
          (count, g7) = generate_vehicle_count density g6;
          (speed, g8) = generate_average_speed density g7
      in (\<lparr>location = loc_name loc,
           latitude = loc_lat loc + dlat,
           longitude = loc_lon loc + dlon,
           trafficDensity = density,
           timestamp = ts,
           vehicleCount = count,
           averageSpeed = speed,
           weatherCondition = weather\<rparr>, g8))"

section \<open>Properties of the density classifier\<close>

subsection \<open>The steps of \<^verbatim>\<open>predict_traffic\<close>\<close>

lemma add_randomness_clamped: "\<exists>x. fst (add_randomness c g) = max 0.5 (min 0.95 x)"
  by (auto simp: add_randomness_def random_uniform_def random_random_def)

lemma add_randomness_bounds:
  "0.5 \<le> fst (add_randomness c g) \<and> fst (add_randomness c g) \<le> 0.95"
proof -
  obtain x where "fst (add_randomness c g) = max 0.5 (min 0.95 x)"
    using add_randomness_clamped by blast
  then show ?thesis by (simp add: max_def min_def)
qed

lemma add_randomness_zero:
  "g 0 = 1 / 2 \<Longrightarrow> 0.5 \<le> c \<Longrightarrow> c \<le> 0.95 \<Longrightarrow> fst (add_randomness c g) = c"
  by (simp add: add_randomness_def random_uniform_def random_random_def)

lemma add_randomness_rest: "snd (add_randomness c g) = (\<lambda>n. g (Suc n))"
  by (simp add: add_randomness_def random_uniform_def random_random_def)

lemma zero_jitter: "g 0 = 1 / 2 \<Longrightarrow> fst (random_uniform (- 0.05) 0.05 g) = 0"
  by (simp add: random_uniform_def random_random_def)

lemma no_reclassify: "0.2 \<le> g 0 \<Longrightarrow> fst (change_prediction d g) = d"
  by (simp add: change_prediction_def random_random_def)

lemma pre_jitter_Some:
  "as_number hour = Some h \<Longrightarrow> as_number hist = Some n \<Longrightarrow>
   pre_jitter hour dow weather hist =
     Inr (fst (adjust_weather weather (adjust_day_of_week dow (base_by_hour h))),
          adjust_historical n
            (snd (adjust_weather weather (adjust_day_of_week dow (base_by_hour h)))))"
  by (simp add: pre_jitter_def split: prod.splits)

lemma pre_jitter_Inr:
  "pre_jitter hour dow weather hist = Inr (d, c) \<Longrightarrow>
   \<exists>h n. as_number hour = Some h \<and> as_number hist = Some n"
  by (simp add: pre_jitter_def split: option.splits prod.splits)

lemma pre_jitter_total:
  "as_number hour = Some h \<Longrightarrow> as_number hist = Some n \<Longrightarrow>
   \<exists>bp bc. pre_jitter hour dow weather hist = Inr (bp, bc)"
  by (simp add: pre_jitter_Some)

lemma predict_traffic_Inr:
  "predict_traffic lat lon hour dow weather hist g = (Inr (d, c), g') \<Longrightarrow>
   \<exists>bp bc. pre_jitter hour dow weather hist = Inr (bp, bc) \<and> c = fst (add_randomness bc g)"
  by (auto simp: predict_traffic_def split: sum.splits prod.splits)

lemma predict_traffic_unfold:
  "pre_jitter hour dow weather hist = Inr (bp, bc) \<Longrightarrow>
   fst (predict_traffic lat lon hour dow weather hist g) =
     Inr (fst (change_prediction bp (snd (add_randomness bc g))), fst (add_randomness bc g))"
  by (simp add: predict_traffic_def split: prod.splits)

lemma adjust_day_weekend:
  "day \<in> {JStr ''Saturday'', JStr ''Sunday''} \<Longrightarrow>
   adjust_day_of_week day (d, c) = ((if d = HIGH then MODERATE else d), c - 0.05)"
  by (auto simp: adjust_day_of_week_def)

lemma adjust_day_weekday:
  "day \<notin> {JStr ''Saturday'', JStr ''Sunday''} \<Longrightarrow> adjust_day_of_week day pc = pc"
  by (cases pc) (simp add: adjust_day_of_week_def)

lemma adjust_weather_snd:
  "snd (adjust_weather w (d, c)) = snd (adjust_weather w (d', c')) + (c - c')"
  by (simp add: adjust_weather_def)

lemma adjust_weather_other:
  "w \<notin> {JStr ''RAIN'', JStr ''SNOW'', JStr ''FOG''} \<Longrightarrow> adjust_weather w pc = pc"
  by (cases pc) (simp add: adjust_weather_def)

lemma adjust_historical_shift: "adjust_historical n (c - x) = adjust_historical n c - x"
  by (simp add: adjust_historical_def)

lemma rush_hour_pre_jitter:
  assumes "as_number hour = Some h" "(7 \<le> h \<and> h \<le> 9) \<or> (17 \<le> h \<and> h \<le> 19)"
    "day_of_week \<notin> {JStr ''Saturday'', JStr ''Sunday''}"
    "as_number hist = Some n" "3 \<le> n" "n \<le> 10"
  shows "pre_jitter hour day_of_week (JStr ''CLEAR'') hist = Inr (HIGH, 0.85)"
proof -
  have b: "base_by_hour h = (HIGH, 0.85)"
    using assms(2) by (simp add: base_by_hour_def)
  have d: "adjust_day_of_week day_of_week (HIGH, 0.85) = (HIGH, 0.85)"
    using assms(3) by (simp add: adjust_day_of_week_def)
  have w: "adjust_weather (JStr ''CLEAR'') (HIGH, 0.85) = (HIGH, 0.85)"
    by (simp add: adjust_weather_def)
  have a: "adjust_historical n 0.85 = 0.85"
    using assms(5,6) by (simp add: adjust_historical_def)
  show ?thesis
    using b d w a by (simp add: pre_jitter_Some [OF assms(1,4)])
qed

lemma monday_morning_pre_jitter:
  "pre_jitter (JNum 8) (JStr ''Monday'') (JStr ''CLEAR'') (JNum 12) = Inr (HIGH, 0.90)"
  by (simp add: pre_jitter_def base_by_hour_def adjust_day_of_week_def adjust_weather_def
      adjust_historical_def)

lemma weekend_confidence:
  assumes we: "weekend \<in> {JStr ''Saturday'', JStr ''Sunday''}"
    and wd: "weekday \<notin> {JStr ''Saturday'', JStr ''Sunday''}"
    and p: "pre_jitter hour weekday weather hist = Inr (d1, c1)"
  shows "\<exists>d2. pre_jitter hour weekend weather hist = Inr (d2, c1 - 0.05)"
proof -
  obtain h n where hn: "as_number hour = Some h" "as_number hist = Some n"
    using pre_jitter_Inr [OF p] by blast
  obtain b bc where b: "base_by_hour h = (b, bc)"
    by (cases "base_by_hour h")
  have c1: "c1 = adjust_historical n (snd (adjust_weather weather (b, bc)))"
    using p by (simp add: pre_jitter_Some [OF hn] adjust_day_weekday [OF wd] b)
  have "snd (adjust_weather weather (adjust_day_of_week weekend (b, bc)))
          = snd (adjust_weather weather (b, bc)) - 0.05"
    using adjust_weather_snd [of weather "if b = HIGH then MODERATE else b" "bc - 0.05" b bc]
    by (simp add: adjust_day_weekend [OF we])
  then show ?thesis
    by (simp add: pre_jitter_Some [OF hn] b c1 adjust_historical_shift)
qed

lemma weekend_density:
  assumes we: "weekend \<in> {JStr ''Saturday'', JStr ''Sunday''}"
    and hn: "as_number hour = Some h" "as_number hist = Some n"
    and hi: "fst (base_by_hour h) = HIGH"
    and w: "weather \<notin> {JStr ''RAIN'', JStr ''SNOW'', JStr ''FOG''}"
  shows "\<exists>c2. pre_jitter hour weekend weather hist = Inr (MODERATE, c2)"
proof -
  obtain bc where b: "base_by_hour h = (HIGH, bc)"
    using hi by (cases "base_by_hour h") simp
  show ?thesis
    by (simp add: pre_jitter_Some [OF hn] b adjust_day_weekend [OF we]
        adjust_weather_other [OF w])
qed

lemma adjust_weather_adverse:
  "w \<in> {JStr ''RAIN'', JStr ''SNOW'', JStr ''FOG''} \<Longrightarrow>
   adjust_weather w (d, c) =
     ((if d = LOW then MODERATE else if d = MODERATE then HIGH else d), c - 0.10)"
  by (auto simp: adjust_weather_def)

lemma weekend_density_adverse:
  assumes we: "weekend \<in> {JStr ''Saturday'', JStr ''Sunday''}"
    and hn: "as_number hour = Some h" "as_number hist = Some n"
    and hi: "fst (base_by_hour h) = HIGH"
    and w: "weather \<in> {JStr ''RAIN'', JStr ''SNOW'', JStr ''FOG''}"
  shows "\<exists>c2. pre_jitter hour weekend weather hist = Inr (HIGH, c2)"
proof -
  obtain bc where b: "base_by_hour h = (HIGH, bc)"
    using hi by (cases "base_by_hour h") simp
  show ?thesis
    by (simp add: pre_jitter_Some [OF hn] b adjust_day_weekend [OF we]
        adjust_weather_adverse [OF w])
qed

subsection \<open>Claims about the classifier\<close>

text \<open>
  C1. For every input context and every sequence of draws, the confidence returned by
  \<^verbatim>\<open>predict_traffic\<close> lies in the closed interval from 0.5 to 0.95. The function
  returns whenever \<open>hour\<close> and \<open>historical_data_points\<close> are numbers; the draws need not
  even lie in the unit interval.
\<close>

theorem confidence_bounds:
  "(\<forall>d c g'. predict_traffic lat lon hour dow weather hist g = (Inr (d, c), g') \<longrightarrow>
      0.5 \<le> c \<and> c \<le> 0.95) \<and>
   (as_number hour \<noteq> None \<and> as_number hist \<noteq> None \<longrightarrow>
      (\<exists>d c g'. predict_traffic lat lon hour dow weather hist g = (Inr (d, c), g')))"
proof (intro conjI allI impI)
  fix d c g'
  assume "predict_traffic lat lon hour dow weather hist g = (Inr (d, c), g')"
  then obtain bc where "c = fst (add_randomness bc g)"
    using predict_traffic_Inr by blast
  then show "0.5 \<le> c" "c \<le> 0.95"
    using add_randomness_bounds [of bc g] by simp_all
next
  assume "as_number hour \<noteq> None \<and> as_number hist \<noteq> None"
  then obtain bp bc where "pre_jitter hour dow weather hist = Inr (bp, bc)"
    using pre_jitter_total by blast
  then show "\<exists>d c g'. predict_traffic lat lon hour dow weather hist g = (Inr (d, c), g')"
    by (simp add: predict_traffic_def split: prod.splits)
qed

theorem confidence_bounds_witness:
  "as_number (JNum 3) \<noteq> None \<and> as_number (JNum 0) \<noteq> None \<and>
   (\<exists>d c g'. predict_traffic (JNum 16.5062) (JNum 80.648) (JNum 3) (JStr ''Sunday'')
                (JStr ''RAIN'') (JNum 0) (draws [0, 0.9] 0) = (Inr (d, c), g') \<and>
              0.5 \<le> c \<and> c \<le> 0.95)"
  using confidence_bounds [of "JNum 16.5062" "JNum 80.648" "JNum 3" "JStr ''Sunday''"
      "JStr ''RAIN''" "JNum 0" "draws [0, 0.9] 0"]
  by auto

text \<open>
  C2, as the code has it. When the re-classification fires (first draw below 0.2): if
  down is drawn (second draw below 0.5) and the density is not LOW, the density moves
  exactly one step down; otherwise, if the density is not CRITICAL, it moves exactly one
  step up, also when down was drawn at LOW; only up at CRITICAL leaves the density
  unchanged. When the re-classification does not fire the density is unchanged.
\<close>

theorem reclassification_step:
  "(g 0 < 0.2 \<and> g 1 < 0.5 \<and> d \<noteq> LOW \<longrightarrow>
      Suc (severity (fst (change_prediction d g))) = severity d) \<and>
   (g 0 < 0.2 \<and> \<not> (g 1 < 0.5 \<and> d \<noteq> LOW) \<and> d \<noteq> CRITICAL \<longrightarrow>
      severity (fst (change_prediction d g)) = Suc (severity d)) \<and>
   (g 0 < 0.2 \<and> \<not> g 1 < 0.5 \<and> d = CRITICAL \<longrightarrow> fst (change_prediction d g) = CRITICAL) \<and>
   (\<not> g 0 < 0.2 \<longrightarrow> fst (change_prediction d g) = d)"
  by (cases d) (auto simp: change_prediction_def random_random_def TRAFFIC_DENSITIES_def)

theorem reclassification_step_witness:
  "severity (fst (change_prediction HIGH (draws [0.1, 0.3] 0))) = 1 \<and>
   severity (fst (change_prediction LOW (draws [0.1, 0.3] 0))) = 1 \<and>
   severity (fst (change_prediction MODERATE (draws [0.1, 0.7] 0))) = 2 \<and>
   fst (change_prediction CRITICAL (draws [0.1, 0.7] 0)) = CRITICAL \<and>
   fst (change_prediction HIGH (draws [0.6, 0.3] 0)) = HIGH"
  using reclassification_step [of "draws [0.1, 0.3] 0" HIGH]
        reclassification_step [of "draws [0.1, 0.3] 0" LOW]
        reclassification_step [of "draws [0.1, 0.7] 0" MODERATE]
        reclassification_step [of "draws [0.1, 0.7] 0" CRITICAL]
        reclassification_step [of "draws [0.6, 0.3] 0" HIGH]
  by (simp add: draws_def)

text \<open>
  C2, as stated, fails: with the re-classification fired and down drawn while the density
  is LOW, the result is MODERATE, not LOW.
\<close>

theorem reclassification_down_at_low:
  "draws [0.1, 0.3] 0 0 < 0.2 \<and> draws [0.1, 0.3] 0 1 < 0.5 \<and>
   fst (change_prediction LOW (draws [0.1, 0.3] 0)) = MODERATE \<and>
   fst (change_prediction LOW (draws [0.1, 0.3] 0)) \<noteq> LOW"
  by (simp add: change_prediction_def random_random_def draws_def TRAFFIC_DENSITIES_def)

text \<open>
  C5. For every context with a rush hour (7 to 9 or 17 to 19), a day that is not
  Saturday or Sunday, weather CLEAR and between 3 and 10 historical data points, the
  prediction before the random steps is HIGH with confidence exactly 0.85. For hour 8,
  Monday, CLEAR, 12 data points, any coordinates, a zero jitter (first draw one half) and
  no re-classification (second draw at least 0.2), \<^verbatim>\<open>predict_traffic\<close> returns HIGH
  with confidence 0.90.
\<close>

theorem rush_hour_weekday_clear:
  "(as_number hour = Some h \<and> ((7 \<le> h \<and> h \<le> 9) \<or> (17 \<le> h \<and> h \<le> 19)) \<and>
    day_of_week \<notin> {JStr ''Saturday'', JStr ''Sunday''} \<and>
    as_number hist = Some n \<and> 3 \<le> n \<and> n \<le> 10 \<longrightarrow>
      pre_jitter hour day_of_week (JStr ''CLEAR'') hist = Inr (HIGH, 0.85)) \<and>
   (g 0 = 1 / 2 \<and> 0.2 \<le> g 1 \<longrightarrow>
      fst (random_uniform (- 0.05) 0.05 g) = 0 \<and>
      fst (predict_traffic lat lon (JNum 8) (JStr ''Monday'') (JStr ''CLEAR'') (JNum 12) g)
        = Inr (HIGH, 0.90))"
proof (intro conjI impI)
  assume "as_number hour = Some h \<and> ((7 \<le> h \<and> h \<le> 9) \<or> (17 \<le> h \<and> h \<le> 19)) \<and>
    day_of_week \<notin> {JStr ''Saturday'', JStr ''Sunday''} \<and>
    as_number hist = Some n \<and> 3 \<le> n \<and> n \<le> 10"
  then show "pre_jitter hour day_of_week (JStr ''CLEAR'') hist = Inr (HIGH, 0.85)"
    using rush_hour_pre_jitter by blast
next
  assume a: "g 0 = 1 / 2 \<and> 0.2 \<le> g 1"
  then show "fst (random_uniform (- 0.05) 0.05 g) = 0"
    using zero_jitter by blast
  have c: "fst (add_randomness 0.90 g) = 0.90"
    using a add_randomness_zero [of g "0.90"] by simp
  have "fst (change_prediction HIGH (snd (add_randomness 0.90 g))) = HIGH"
    using a by (simp add: no_reclassify add_randomness_rest)
  then show "fst (predict_traffic lat lon (JNum 8) (JStr ''Monday'') (JStr ''CLEAR'') (JNum 12) g)
        = Inr (HIGH, 0.90)"
    using predict_traffic_unfold [OF monday_morning_pre_jitter, of lat lon g] c by simp
qed

theorem rush_hour_weekday_clear_witness:
  "pre_jitter (JNum 18) (JStr ''Tuesday'') (JStr ''CLEAR'') (JNum 5) = Inr (HIGH, 0.85) \<and>
   fst (predict_traffic (JNum 16.5062) (JNum 80.6480) (JNum 8) (JStr ''Monday'')
          (JStr ''CLEAR'') (JNum 12) (draws [1 / 2, 0.9] 0)) = Inr (HIGH, 0.90)"
  using rush_hour_weekday_clear [of "JNum 18" 18 "JStr ''Tuesday''" "JNum 5" 5
      "draws [1 / 2, 0.9] 0" "JNum 16.5062" "JNum 80.6480"]
  by (simp add: draws_def)

text \<open>
  C6, as the code has it. For a day of week that is Saturday or Sunday: a HIGH base
  prediction of the hour is de-escalated to MODERATE by the day-of-week adjustment, and
  that adjustment lowers the confidence by exactly 0.05 whatever the prediction is.
  Compared with the same context on any other day, the confidence before the random
  steps is exactly 0.05 lower. The prediction before the random steps is MODERATE when
  the weather is not adverse; when the weather is adverse (RAIN, SNOW, FOG), the weather
  adjustment that follows escalates the MODERATE again (see C7), and the prediction
  before the random steps is HIGH.
\<close>

theorem weekend_adjustment:
  "weekend \<in> {JStr ''Saturday'', JStr ''Sunday''} \<longrightarrow>
     (fst (base_by_hour h) = HIGH \<longrightarrow>
        fst (adjust_day_of_week weekend (base_by_hour h)) = MODERATE) \<and>
     snd (adjust_day_of_week weekend (d, c)) = c - 0.05 \<and>
     (weekday \<notin> {JStr ''Saturday'', JStr ''Sunday''} \<and>
      pre_jitter hour weekday weather hist = Inr (d1, c1) \<longrightarrow>
        (\<exists>d2. pre_jitter hour weekend weather hist = Inr (d2, c1 - 0.05))) \<and>
     (as_number hour = Some h \<and> as_number hist = Some n \<and> fst (base_by_hour h) = HIGH \<and>
      weather \<notin> {JStr ''RAIN'', JStr ''SNOW'', JStr ''FOG''} \<longrightarrow>
        (\<exists>c2. pre_jitter hour weekend weather hist = Inr (MODERATE, c2))) \<and>
     (as_number hour = Some h \<and> as_number hist = Some n \<and> fst (base_by_hour h) = HIGH \<and>
      weather \<in> {JStr ''RAIN'', JStr ''SNOW'', JStr ''FOG''} \<longrightarrow>
        (\<exists>c2. pre_jitter hour weekend weather hist = Inr (HIGH, c2)))"
proof (intro impI conjI)
  assume we: "weekend \<in> {JStr ''Saturday'', JStr ''Sunday''}"
  show "snd (adjust_day_of_week weekend (d, c)) = c - 0.05"
    by (simp add: adjust_day_weekend [OF we])
  {
    assume "fst (base_by_hour h) = HIGH"
    then obtain bc where "base_by_hour h = (HIGH, bc)"
      by (cases "base_by_hour h") simp
    then show "fst (adjust_day_of_week weekend (base_by_hour h)) = MODERATE"
      by (simp add: adjust_day_weekend [OF we])
  }
  {
    assume "weekday \<notin> {JStr ''Saturday'', JStr ''Sunday''} \<and>
      pre_jitter hour weekday weather hist = Inr (d1, c1)"
    then show "\<exists>d2. pre_jitter hour weekend weather hist = Inr (d2, c1 - 0.05)"
      using weekend_confidence [OF we] by blast
  }
  {
    assume "as_number hour = Some h \<and> as_number hist = Some n \<and> fst (base_by_hour h) = HIGH \<and>
      weather \<notin> {JStr ''RAIN'', JStr ''SNOW'', JStr ''FOG''}"
    then show "\<exists>c2. pre_jitter hour weekend weather hist = Inr (MODERATE, c2)"
      using weekend_density [OF we] by blast
  }
  {
    assume "as_number hour = Some h \<and> as_number hist = Some n \<and> fst (base_by_hour h) = HIGH \<and>
      weather \<in> {JStr ''RAIN'', JStr ''SNOW'', JStr ''FOG''}"
    then show "\<exists>c2. pre_jitter hour weekend weather hist = Inr (HIGH, c2)"
      using weekend_density_adverse [OF we] by blast
  }
qed

theorem weekend_adjustment_witness:
  "JStr ''Sunday'' \<in> {JStr ''Saturday'', JStr ''Sunday''} \<and>
   fst (base_by_hour 8) = HIGH \<and>
   fst (adjust_day_of_week (JStr ''Sunday'') (base_by_hour 8)) = MODERATE \<and>
   snd (adjust_day_of_week (JStr ''Sunday'') (LOW, 0.80)) = 0.75 \<and>
   pre_jitter (JNum 8) (JStr ''Monday'') (JStr ''RAIN'') (JNum 5) = Inr (HIGH, 0.75) \<and>
   (\<exists>d2. pre_jitter (JNum 8) (JStr ''Sunday'') (JStr ''RAIN'') (JNum 5) = Inr (d2, 0.70)) \<and>
   (\<exists>c2. pre_jitter (JNum 8) (JStr ''Sunday'') (JStr ''RAIN'') (JNum 5) = Inr (HIGH, c2)) \<and>
   (\<exists>c2. pre_jitter (JNum 8) (JStr ''Sunday'') (JStr ''CLEAR'') (JNum 5) = Inr (MODERATE, c2))"
proof -
  have m: "pre_jitter (JNum 8) (JStr ''Monday'') (JStr ''RAIN'') (JNum 5) = Inr (HIGH, 0.75)"
    by (simp add: pre_jitter_def base_by_hour_def adjust_day_of_week_def adjust_weather_def
        adjust_historical_def)
  have b: "fst (base_by_hour 8) = HIGH"
    by (simp add: base_by_hour_def)
  show ?thesis
    using weekend_adjustment [of "JStr ''Sunday''" 8 LOW "0.80" "JStr ''Monday''" "JNum 8"
        "JStr ''RAIN''" "JNum 5" HIGH "0.75" 5]
      weekend_adjustment [of "JStr ''Sunday''" 8 LOW "0.80" "JStr ''Monday''" "JNum 8"
        "JStr ''CLEAR''" "JNum 5" HIGH "0.75" 5] m b
    by simp
qed


text \<open>
  C6 does not hold for an adverse weather: at hour 8 on a Sunday with RAIN the base
  prediction of the hour is HIGH, and the prediction before the random steps is HIGH as
  well, not MODERATE; with a zero jitter and no re-classification \<^verbatim>\<open>predict_traffic\<close>
  returns HIGH.
\<close>

theorem weekend_rain_stays_high:
  "fst (base_by_hour 8) = HIGH \<and>
   pre_jitter (JNum 8) (JStr ''Sunday'') (JStr ''RAIN'') (JNum 5) = Inr (HIGH, 0.70) \<and>
   fst (predict_traffic (JNum 16.5062) (JNum 80.648) (JNum 8) (JStr ''Sunday'') (JStr ''RAIN'')
          (JNum 5) (draws [1 / 2, 0.9] 0)) = Inr (HIGH, 0.70)"
  by (simp add: predict_traffic_def pre_jitter_def base_by_hour_def adjust_day_of_week_def
      adjust_weather_def adjust_historical_def add_randomness_def change_prediction_def
      random_uniform_def random_random_def draws_def)

text \<open>
  C7. In the weather adjustment, for each adverse weather value (RAIN, SNOW, FOG) the
  density after the step is never lower in severity than before: LOW becomes MODERATE,
  MODERATE becomes HIGH (an escalated LOW is not escalated again), HIGH and CRITICAL are
  unchanged, and the confidence decreases by exactly 0.10. For every other weather value
  the step changes nothing.
\<close>

theorem weather_adjustment_escalates:
  "(w \<in> {JStr ''RAIN'', JStr ''SNOW'', JStr ''FOG''} \<longrightarrow>
      adjust_weather w (LOW, c) = (MODERATE, c - 0.10) \<and>
      adjust_weather w (MODERATE, c) = (HIGH, c - 0.10) \<and>
      adjust_weather w (HIGH, c) = (HIGH, c - 0.10) \<and>
      adjust_weather w (CRITICAL, c) = (CRITICAL, c - 0.10) \<and>
      severity d \<le> severity (fst (adjust_weather w (d, c))) \<and>
      snd (adjust_weather w (d, c)) = c - 0.10) \<and>
   (w \<notin> {JStr ''RAIN'', JStr ''SNOW'', JStr ''FOG''} \<longrightarrow>
      adjust_weather w (d, c) = (d, c))"
  by (cases d) (auto simp: adjust_weather_def)

theorem weather_adjustment_escalates_witness:
  "adjust_weather (JStr ''RAIN'') (LOW, 0.80) = (MODERATE, 0.70) \<and>
   adjust_weather (JStr ''FOG'') (MODERATE, 0.75) = (HIGH, 0.65) \<and>
   adjust_weather (JStr ''SNOW'') (CRITICAL, 0.75) = (CRITICAL, 0.65) \<and>
   adjust_weather (JStr ''CLOUDY'') (LOW, 0.80) = (LOW, 0.80)"
  using weather_adjustment_escalates [of "JStr ''RAIN''" "0.80" LOW]
        weather_adjustment_escalates [of "JStr ''FOG''" "0.75" MODERATE]
        weather_adjustment_escalates [of "JStr ''SNOW''" "0.75" CRITICAL]
        weather_adjustment_escalates [of "JStr ''CLOUDY''" "0.80" LOW]
  by simp

subsection \<open>The request handlers\<close>























section \<open>Properties of the observation generator\<close>

lemma unit_draws_0: "unit_draws g \<Longrightarrow> 0 \<le> g 0 \<and> g 0 < 1"
  by (simp add: unit_draws_def)

lemma random_randint_range:
  assumes u: "unit_draws g" and ab: "a \<le> b"
  shows "a \<le> fst (random_randint a b g) \<and> fst (random_randint a b g) \<le> b"
proof -
  let ?n = "b - a + 1"
  have n: "0 < (of_int ?n :: real)" using ab by simp
  have "0 \<le> g 0 * of_int ?n" using unit_draws_0 [OF u] n by simp
  then have lo: "0 \<le> \<lfloor>g 0 * of_int ?n\<rfloor>" by simp
  have "g 0 * of_int ?n < of_int ?n" using unit_draws_0 [OF u] n by simp
  then have hi: "\<lfloor>g 0 * of_int ?n\<rfloor> < ?n" by (simp only: floor_less_iff)
  show ?thesis
    using lo hi by (simp add: random_randint_def random_random_def)
qed

lemma random_uniform_range:
  assumes u: "unit_draws g" and ab: "a \<le> b"
  shows "a \<le> fst (random_uniform a b g) \<and> fst (random_uniform a b g) \<le> b"
proof -
  have "0 \<le> (b - a) * g 0" using unit_draws_0 [OF u] ab by simp
  moreover have "(b - a) * g 0 \<le> (b - a) * 1"
    using unit_draws_0 [OF u] ab by (intro mult_left_mono) simp_all
  ultimately show ?thesis
    by (simp add: random_uniform_def random_random_def)
qed

lemma round1_tenths: "\<exists>k::int. round1 x = of_int k / 10"
  by (simp add: round1_def Let_def)

lemma round1_range:
  assumes "of_int a \<le> x" "x \<le> of_int b"
  shows "of_int a \<le> round1 x \<and> round1 x \<le> of_int b"
proof -
  let ?y = "x * 10"
  let ?f = "\<lfloor>?y\<rfloor>"
  have "of_int (a * 10) \<le> ?y" using assms(1) by simp
  then have lo: "a * 10 \<le> ?f" by (simp only: le_floor_iff)
  have yb: "?y \<le> of_int (b * 10)" using assms(2) by simp
  then have hi: "?f \<le> b * 10" by (simp only: floor_le_iff)
  have up: "?f + 1 \<le> b * 10" if "?y - of_int ?f > 0"
  proof -
    have "of_int ?f < ?y" using that by simp
    then have "of_int ?f < (of_int (b * 10) :: real)" using yb by linarith
    then have "?f < b * 10" by (simp only: of_int_less_iff)
    then show ?thesis by simp
  qed
  define k where "k = (if ?y - of_int ?f < 1 / 2 then ?f else if ?y - of_int ?f > 1 / 2 then ?f + 1
                 else if even ?f then ?f else ?f + 1)"
  have r: "round1 x = of_int k / 10"
    by (simp add: round1_def Let_def k_def)
  have "a * 10 \<le> k" using lo by (simp add: k_def)
  moreover have "k \<le> b * 10" using hi up by (auto simp: k_def)
  ultimately have "of_int (a * 10) \<le> (of_int k :: real)" "(of_int k :: real) \<le> of_int (b * 10)"
    by (simp_all only: of_int_le_iff)
  then show ?thesis by (simp add: r)
qed

lemma vehicle_count_range:
  assumes u: "unit_draws g"
  shows "fst (density_ranges d) \<le> fst (generate_vehicle_count d g) \<and>
         fst (generate_vehicle_count d g) \<le> snd (density_ranges d)"
  using random_randint_range [OF u]
  by (cases d) (simp_all add: generate_vehicle_count_def)

lemma average_speed_eq:
  "fst (generate_average_speed d g) =
     round1 (fst (random_uniform (fst (speed_ranges d)) (snd (speed_ranges d)) g))"
  by (simp add: generate_average_speed_def split: prod.splits)

lemma average_speed_range:
  assumes u: "unit_draws g"
  shows "fst (speed_ranges d) \<le> fst (generate_average_speed d g) \<and>
         fst (generate_average_speed d g) \<le> snd (speed_ranges d)"
proof (cases d)
  case LOW
  then show ?thesis
    using round1_range [of 40 _ 60] random_uniform_range [OF u, of 40 60]
    by (simp add: average_speed_eq)
next
  case MODERATE
  then show ?thesis
    using round1_range [of 20 _ 40] random_uniform_range [OF u, of 20 40]
    by (simp add: average_speed_eq)
next
  case HIGH
  then show ?thesis
    using round1_range [of 10 _ 25] random_uniform_range [OF u, of 10 25]
    by (simp add: average_speed_eq)
next
  case CRITICAL
  then show ?thesis
    using round1_range [of 2 _ 15] random_uniform_range [OF u, of 2 15]
    by (simp add: average_speed_eq)
qed

text \<open>
  C8. For every density and every draw in the unit interval, the vehicle count lies in
  the inclusive range of the table (LOW 5 to 20, MODERATE 21 to 50, HIGH 51 to 80,
  CRITICAL 81 to 120) and the average speed lies in the inclusive range of the table
  (LOW 40 to 60, MODERATE 20 to 40, HIGH 10 to 25, CRITICAL 2 to 15) and is a whole
  number of tenths.
\<close>

theorem magnitude_ranges:
  "unit_draws g \<longrightarrow>
     fst (generate_vehicle_count LOW g) \<in> {5..20} \<and>
     fst (generate_vehicle_count MODERATE g) \<in> {21..50} \<and>
     fst (generate_vehicle_count HIGH g) \<in> {51..80} \<and>
     fst (generate_vehicle_count CRITICAL g) \<in> {81..120} \<and>
     fst (generate_average_speed LOW g) \<in> {40..60} \<and>
     fst (generate_average_speed MODERATE g) \<in> {20..40} \<and>
     fst (generate_average_speed HIGH g) \<in> {10..25} \<and>
     fst (generate_average_speed CRITICAL g) \<in> {2..15} \<and>
     (\<exists>k::int. fst (generate_average_speed d g) = of_int k / 10)"
proof
  assume u: "unit_draws g"
  have t: "\<exists>k::int. fst (generate_average_speed d g) = of_int k / 10"
    unfolding average_speed_eq by (rule round1_tenths)
  show "fst (generate_vehicle_count LOW g) \<in> {5..20} \<and>
     fst (generate_vehicle_count MODERATE g) \<in> {21..50} \<and>
     fst (generate_vehicle_count HIGH g) \<in> {51..80} \<and>
     fst (generate_vehicle_count CRITICAL g) \<in> {81..120} \<and>
     fst (generate_average_speed LOW g) \<in> {40..60} \<and>
     fst (generate_average_speed MODERATE g) \<in> {20..40} \<and>
     fst (generate_average_speed HIGH g) \<in> {10..25} \<and>
     fst (generate_average_speed CRITICAL g) \<in> {2..15} \<and>
     (\<exists>k::int. fst (generate_average_speed d g) = of_int k / 10)"
    using vehicle_count_range [OF u, of LOW] vehicle_count_range [OF u, of MODERATE]
      vehicle_count_range [OF u, of HIGH] vehicle_count_range [OF u, of CRITICAL]
      average_speed_range [OF u, of LOW] average_speed_range [OF u, of MODERATE]
      average_speed_range [OF u, of HIGH] average_speed_range [OF u, of CRITICAL] t
    by simp
qed


theorem magnitude_ranges_witness:
  "unit_draws (draws [] (1 / 8)) \<and>
   fst (generate_vehicle_count CRITICAL (draws [] (1 / 8))) \<in> {81..120} \<and>
   fst (generate_average_speed CRITICAL (draws [] (1 / 8))) \<in> {2..15} \<and>
   fst (generate_average_speed LOW (draws [] (1 / 8))) \<in> {40..60}"
proof -
  have u: "unit_draws (draws [] (1 / 8))"
    by (simp add: unit_draws_def draws_def)
  show ?thesis
    using u magnitude_ranges [of "draws [] (1 / 8)" LOW] by simp
qed

lemma generate_traffic_data_density:
  "trafficDensity (fst (generate_traffic_data loc ts g)) =
     (let d0 = generate_traffic_density_by_hour (dt_hour ts) g;
          d1 = weekend_dampening (dt_weekday ts) (fst d0) (snd d0);
          w = random_choice WEATHER_CONDITIONS (snd d1)
      in fst (weather_impact (fst w) (fst d1) (snd w)))"
  by (simp add: generate_traffic_data_def Let_def split: prod.splits)

text \<open>
  C9. For a timestamp on a weekend (\<^verbatim>\<open>weekday() >= 5\<close>) the weekend adjustment of
  \<^verbatim>\<open>generate_traffic_data\<close> turns CRITICAL into HIGH without a draw, turns HIGH into
  MODERATE when the draw of \<^verbatim>\<open>random()\<close> is below 0.5 and leaves it HIGH otherwise,
  and leaves MODERATE and LOW unchanged. The density of the observation is the drawn
  density after this adjustment and the weather impact.
\<close>

theorem weekend_dampening_step:
  "(5 \<le> weekday \<longrightarrow>
     weekend_dampening weekday CRITICAL g = (HIGH, g) \<and>
     fst (weekend_dampening weekday HIGH g) = (if g 0 < 0.5 then MODERATE else HIGH) \<and>
     weekend_dampening weekday MODERATE g = (MODERATE, g) \<and>
     weekend_dampening weekday LOW g = (LOW, g)) \<and>
   trafficDensity (fst (generate_traffic_data loc ts g)) =
     (let d0 = generate_traffic_density_by_hour (dt_hour ts) g;
          d1 = weekend_dampening (dt_weekday ts) (fst d0) (snd d0);
          w = random_choice WEATHER_CONDITIONS (snd d1)
      in fst (weather_impact (fst w) (fst d1) (snd w)))"
  using generate_traffic_data_density [of loc ts g]
  by (simp add: weekend_dampening_def random_random_def)

theorem weekend_dampening_step_witness:
  "(5::int) \<le> 6 \<and>
   weekend_dampening 6 CRITICAL (draws [0.3] 0.7) = (HIGH, draws [0.3] 0.7) \<and>
   fst (weekend_dampening 6 HIGH (draws [0.3] 0.7)) = MODERATE \<and>
   fst (weekend_dampening 5 HIGH (draws [0.7] 0.3)) = HIGH \<and>
   weekend_dampening 6 LOW (draws [0.3] 0.7) = (LOW, draws [0.3] 0.7)"
  using weekend_dampening_step [of 6 "draws [0.3] 0.7"]
    weekend_dampening_step [of 5 "draws [0.7] 0.3"]
  by (simp add: draws_def)

lemma night_draw:
  assumes "22 \<le> h \<or> h \<le> 6" "g 0 < 1"
  shows "fst (generate_traffic_density_by_hour h g) \<noteq> CRITICAL"
proof -
  have n: "\<not> ((7 \<le> h \<and> h \<le> 9) \<or> (17 \<le> h \<and> h \<le> 19))"
    using assms(1) by auto
  have "g 0 * 100 < 100" using assms(2) by simp
  then have "fst (random_choices TRAFFIC_DENSITIES [70, 25, 5, 0] g) \<noteq> CRITICAL"
    by (simp add: random_choices_def random_random_def TRAFFIC_DENSITIES_def)
  then show ?thesis
    using n assms(1) by (auto simp: generate_traffic_density_by_hour_def)
qed

lemma weekend_dampening_lowers:
  "severity (fst (weekend_dampening weekday d g)) \<le> severity d"
  by (cases d) (simp_all add: weekend_dampening_def random_random_def)

lemma weather_impact_not_critical:
  "d \<noteq> CRITICAL \<Longrightarrow> fst (weather_impact weather d g) \<noteq> CRITICAL"
  by (cases d) (simp_all add: weather_impact_def random_random_def)

lemma weather_impact_step:
  "severity (fst (weather_impact weather d g)) \<le> Suc (severity d)"
  by (cases d) (simp_all add: weather_impact_def random_random_def)

lemma not_critical_iff: "d \<noteq> CRITICAL \<longleftrightarrow> severity d < 3"
  by (cases d) simp_all

text \<open>
  C10. For every timestamp whose hour is 22 or 23 or between 0 and 6, and every sequence
  of draws in the unit interval, the observation of \<^verbatim>\<open>generate_traffic_data\<close> never
  has the density CRITICAL: the night draw never gives CRITICAL, the weekend adjustment
  never raises the severity, and the weather impact never turns another density into
  CRITICAL.
\<close>

theorem night_never_critical:
  "((22 \<le> dt_hour ts \<and> dt_hour ts \<le> 23) \<or> (0 \<le> dt_hour ts \<and> dt_hour ts \<le> 6)) \<and> unit_draws g \<longrightarrow>
     fst (generate_traffic_density_by_hour (dt_hour ts) g) \<noteq> CRITICAL \<and>
     severity (fst (weekend_dampening weekday d g')) \<le> severity d \<and>
     (d \<noteq> CRITICAL \<longrightarrow> fst (weather_impact weather d g') \<noteq> CRITICAL) \<and>
     trafficDensity (fst (generate_traffic_data loc ts g)) \<noteq> CRITICAL"
proof (intro impI conjI)
  assume a: "((22 \<le> dt_hour ts \<and> dt_hour ts \<le> 23) \<or> (0 \<le> dt_hour ts \<and> dt_hour ts \<le> 6)) \<and> unit_draws g"
  then have h: "22 \<le> dt_hour ts \<or> dt_hour ts \<le> 6" by auto
  have u: "g 0 < 1" using a unit_draws_0 by blast
  let ?d0 = "fst (generate_traffic_density_by_hour (dt_hour ts) g)"
  show d0: "?d0 \<noteq> CRITICAL"
    using night_draw [of "dt_hour ts" g, OF h u] .
  show "severity (fst (weekend_dampening weekday d g')) \<le> severity d"
    by (rule weekend_dampening_lowers)
  obtain w g2 g3 where e: "trafficDensity (fst (generate_traffic_data loc ts g)) =
     fst (weather_impact w (fst (weekend_dampening (dt_weekday ts) ?d0 g2)) g3)"
    by (simp add: generate_traffic_data_density Let_def)
  have "severity (fst (weekend_dampening (dt_weekday ts) ?d0 g2)) < 3"
    using weekend_dampening_lowers [of "dt_weekday ts" ?d0 g2] d0
    by (simp add: not_critical_iff)
  then have "fst (weekend_dampening (dt_weekday ts) ?d0 g2) \<noteq> CRITICAL"
    by (simp add: not_critical_iff)
  then show "trafficDensity (fst (generate_traffic_data loc ts g)) \<noteq> CRITICAL"
    using weather_impact_not_critical e by simp
next
  assume "d \<noteq> CRITICAL"
  then show "fst (weather_impact weather d g') \<noteq> CRITICAL"
    by (rule weather_impact_not_critical)
qed

lemma unit_draws_draws:
  assumes "\<forall>x \<in> set xs. 0 \<le> x \<and> x < 1" "0 \<le> d" "d < 1"
  shows "unit_draws (draws xs d)"
  using assms by (simp add: unit_draws_def draws_def)

theorem night_never_critical_witness:
  "unit_draws (draws [0.99, 0.4, 0.3, 0.1] (1 / 2)) \<and>
   22 \<le> dt_hour \<lparr>dt_hour = 23, dt_weekday = 5\<rparr> \<and> dt_hour \<lparr>dt_hour = 23, dt_weekday = 5\<rparr> \<le> 23 \<and>
   trafficDensity (fst (generate_traffic_data
       \<lparr>loc_name = ''Benz Circle'', loc_lat = 16.507, loc_lon = 80.649\<rparr>
       \<lparr>dt_hour = 23, dt_weekday = 5\<rparr> (draws [0.99, 0.4, 0.3, 0.1] (1 / 2)))) \<noteq> CRITICAL"
proof -
  have u: "unit_draws (draws [0.99, 0.4, 0.3, 0.1] (1 / 2))"
    by (rule unit_draws_draws) simp_all
  show ?thesis
    using u night_never_critical [of "\<lparr>dt_hour = 23, dt_weekday = 5\<rparr>"
        "draws [0.99, 0.4, 0.3, 0.1] (1 / 2)" 5 HIGH "draws [] 0" "''RAIN''"
        "\<lparr>loc_name = ''Benz Circle'', loc_lat = 16.507, loc_lon = 80.649\<rparr>"]
    by simp
qed


end
